theory Spec2Isabelle
  imports Main
begin

section \<open>LoggerService: a shallow embedding of lib/services/LoggerService.ts\<close>

text \<open>
  The class \<^verbatim>\<open>LoggerService\<close> resolves the source location of a log call, mirrors the
  message to the console and forwards a record to the Tauri backend. Its methods are
  asynchronous but run sequentially; each one is modelled as a function from the state
  before the call to an outcome and the state after it. A rejected promise is the
  outcome \<open>Inl e\<close>, a fulfilled one \<open>Inr v\<close>.

  Strings are lists of \<open>char\<close>: the model covers file references, labels and levels
  written in ASCII. What the environment decides (whether there is a window, what the
  backend answers, what the stack-trace provider and the URL parser return) is a
  parameter of each call, the record \<open>runtime\<close>.
\<close>

subsection \<open>Strings\<close>

definition startsWith :: "string \<Rightarrow> string \<Rightarrow> bool" where
  \<comment> \<open>\<^verbatim>\<open>s.startsWith(p)\<close>\<close>
  "startsWith s p = (take (length p) s = p)"

definition replace_prefix :: "string \<Rightarrow> string \<Rightarrow> string" where
  \<comment> \<open>\<^verbatim>\<open>s.replace(/^p/, "")\<close> for a literal \<open>p\<close>: the anchored pattern matches at index 0 only.\<close>
  "replace_prefix p s = (if startsWith s p then drop (length p) s else s)"

definition toUpperCase :: "string \<Rightarrow> string" where
  \<comment> \<open>\<^verbatim>\<open>s.toUpperCase()\<close> on ASCII: the letters a to z move to A to Z.\<close>
  "toUpperCase s =
     map (\<lambda>c. case map_of (zip ''abcdefghijklmnopqrstuvwxyz'' ''ABCDEFGHIJKLMNOPQRSTUVWXYZ'') c of
                Some u \<Rightarrow> u
              | None \<Rightarrow> c) s"

fun digits :: "nat \<Rightarrow> string" where
  \<comment> \<open>The decimal numeral of a number, as a template literal renders it.\<close>
  "digits n =
     (if n < 10 then [''0123456789'' ! n]
      else digits (n div 10) @ [''0123456789'' ! (n mod 10)])"

subsection \<open>The project-relative pattern\<close>

text \<open>
  Line 67 matches the file name against
  \<^verbatim>\<open>/.*[/\\]((?:app|src|components|lib|hooks|constants|types)[/\\].*)/\<close>.
  The pattern is not anchored, \<^verbatim>\<open>.\<close> matches every character but a line terminator and
  \<^verbatim>\<open>.*\<close> is greedy: the matcher first lets it take as many characters as it can and
  gives them back one at a time until the rest of the pattern matches.
\<close>

definition is_separator :: "char \<Rightarrow> bool" where
  \<comment> \<open>The class \<^verbatim>\<open>[/\\]\<close>.\<close>
  "is_separator c = (c = CHR ''/'' \<or> c = CHR 0x5C)"

definition is_line_terminator :: "char \<Rightarrow> bool" where
  \<comment> \<open>The characters that \<^verbatim>\<open>.\<close> does not match: line feed and carriage return.\<close>
  "is_line_terminator c = (c = CHR 0x0A \<or> c = CHR 0x0D)"

definition known_directories :: "string list" where
  "known_directories =
     [''app'', ''src'', ''components'', ''lib'', ''hooks'', ''constants'', ''types'']"

definition match_group :: "string \<Rightarrow> string option" where
  \<comment> \<open>The capture group at the head of \<open>s\<close>: a known directory, a separator, and the rest
      of the line.\<close>
  "match_group s =
     (if list_ex (\<lambda>d. startsWith s d \<and>
                      (case drop (length d) s of [] \<Rightarrow> False | c # _ \<Rightarrow> is_separator c))
           known_directories
      then Some (takeWhile (\<lambda>c. \<not> is_line_terminator c) s) else None)"

fun match_at :: "string \<Rightarrow> string option" where
  \<comment> \<open>The whole pattern at the head of the string. The greedy \<^verbatim>\<open>.*\<close> takes the character
      \<open>c\<close> whenever the pattern still matches after it, and stops in front of \<open>c\<close>
      otherwise.\<close>
  "match_at [] = None"
| "match_at (c # cs) =
     (case (if is_line_terminator c then None else match_at cs) of
        Some g \<Rightarrow> Some g
      | None \<Rightarrow> if is_separator c then match_group cs else None)"

fun regex_match :: "string \<Rightarrow> string option" where
  \<comment> \<open>\<^verbatim>\<open>fileName.match(...)?.[1]\<close>: the first index where the pattern matches wins.\<close>
  "regex_match [] = None"
| "regex_match (c # cs) =
     (case match_at (c # cs) of Some g \<Rightarrow> Some g | None \<Rightarrow> regex_match cs)"

subsection \<open>Cleaning a frame's file name\<close>

definition url_pathname :: "string \<Rightarrow> string option" where
  \<comment> \<open>\<^verbatim>\<open>new URL(s).pathname\<close> of the platform, for the plain references
      \<^verbatim>\<open>http(s)://authority/path?query#fragment\<close> (no dot segments, no character that the
      parser escapes). \<open>None\<close> is the \<^verbatim>\<open>TypeError\<close> of a reference that does not parse.\<close>
  "url_pathname s =
     (let after_scheme =
            (if startsWith s ''http://'' then Some (drop 7 s)
             else if startsWith s ''https://'' then Some (drop 8 s) else None)
      in case after_scheme of
           None \<Rightarrow> None
         | Some r \<Rightarrow>
             let authority = takeWhile (\<lambda>c. c \<notin> set ''/?#'') r;
                 path = takeWhile (\<lambda>c. c \<notin> set ''?#'') (dropWhile (\<lambda>c. c \<notin> set ''/?#'') r)
             in if authority = [] then None
                else Some (if path = [] then ''/'' else path))"

definition cleanFileName :: "(string \<Rightarrow> string option) \<Rightarrow> string \<Rightarrow> string" where
  \<comment> \<open>Lines 52 to 71 of \<^verbatim>\<open>getCallerLocation\<close>. The first argument is the platform's URL
      parser; a reference it rejects keeps its name (the empty \<^verbatim>\<open>catch {}\<close>).\<close>
  "cleanFileName pathname fileName0 =
     (let fileName1 = replace_prefix ''file://''
                        (replace_prefix ''webpack-internal:///''
                           (replace_prefix ''webpack-internal:///./'' fileName0));
          fileName2 =
            (if startsWith fileName1 ''http''
             then (case pathname fileName1 of
                     Some path \<Rightarrow> replace_prefix ''/_next/static/chunks/'' path
                   | None \<Rightarrow> fileName1)
             else fileName1)
      in case regex_match fileName2 of Some g \<Rightarrow> g | None \<Rightarrow> fileName2)"

subsection \<open>Data\<close>

datatype error =
    TypeError string    \<comment> \<open>raised by the JavaScript runtime\<close>
  | Failure string      \<comment> \<open>any value a collaborator throws or rejects with\<close>

record StackFrame =
  \<comment> \<open>The two fields of a stacktrace-js frame the code reads; both may be undefined.\<close>
  fileName :: "string option"
  lineNumber :: "nat option"

record LogSettings =
  \<comment> \<open>\<^verbatim>\<open>LOGGER_SETTINGS\<close> of \<^verbatim>\<open>@/constants/logger_settings\<close>, a parameter of the model.\<close>
  logPath :: "string option"
  logType :: string
  maxFileSize :: int
  consoleLevel :: string
  fileLevel :: string

record settings =
  \<comment> \<open>The object literal of lines 20 to 26; \<open>None\<close> is \<^verbatim>\<open>null\<close>.\<close>
  log_path :: "string option"
  log_type :: string
  max_file_size :: int
  console_level :: string
  file_level :: string

datatype command =
    init_logger_cmd settings
  | log_frontend_message string string string   \<comment> \<open>level, message, location\<close>

datatype channel =
  console_log | console_info | console_warn | console_error | console_debug | console_trace

datatype argument = Text string | Caught error

type_synonym console_call = "channel \<times> argument list"

record runtime =
  \<comment> \<open>What the environment of one call supplies.\<close>
  has_window :: bool                            \<comment> \<open>\<^verbatim>\<open>typeof window !== "undefined"\<close>\<close>
  LOGGER_SETTINGS :: LogSettings
  invoke :: "command \<Rightarrow> error option"          \<comment> \<open>\<open>Some e\<close>: the command throws or rejects\<close>
  StackTrace_get :: "error + StackFrame list"   \<comment> \<open>\<^verbatim>\<open>await StackTrace.get()\<close>\<close>
  URL_pathname :: "string \<Rightarrow> string option"    \<comment> \<open>\<^verbatim>\<open>new URL(s).pathname\<close>, \<open>None\<close> when it throws\<close>

record state =
  initialized :: bool                 \<comment> \<open>\<^verbatim>\<open>this.initialized\<close>\<close>
  isDev :: bool                       \<comment> \<open>\<^verbatim>\<open>this.isDev\<close>\<close>
  console :: "console_call list"      \<comment> \<open>the calls of console primitives so far, oldest first\<close>
  invoked :: "command list"           \<comment> \<open>the commands submitted so far, oldest first\<close>
  stack_calls :: nat                  \<comment> \<open>how often \<^verbatim>\<open>StackTrace.get\<close> has been called\<close>

definition truthy :: "string option \<Rightarrow> bool" where
  \<comment> \<open>An optional string in a condition: \<^verbatim>\<open>undefined\<close> and \<^verbatim>\<open>""\<close> are falsy.\<close>
  "truthy v = (case v of None \<Rightarrow> False | Some x \<Rightarrow> x \<noteq> [])"

definition or_else :: "string option \<Rightarrow> string \<Rightarrow> string" where
  \<comment> \<open>\<^verbatim>\<open>v || d\<close> for an optional string \<open>v\<close>.\<close>
  "or_else v d = (case v of None \<Rightarrow> d | Some x \<Rightarrow> if x = [] then d else x)"

definition print :: "channel \<Rightarrow> argument list \<Rightarrow> state \<Rightarrow> state" where
  "print ch args s = s\<lparr>console := console s @ [(ch, args)]\<rparr>"

subsection \<open>init\<close>

definition make_settings :: "LogSettings \<Rightarrow> settings" where
  \<comment> \<open>Lines 20 to 26. \<^verbatim>\<open>logPath || null\<close> is \<^verbatim>\<open>null\<close> for every falsy path.\<close>
  "make_settings c =
     \<lparr>log_path = (if truthy (logPath c) then logPath c else None),
      log_type = logType c,
      max_file_size = maxFileSize c,
      console_level = consoleLevel c,
      file_level = fileLevel c\<rparr>"

definition init :: "runtime \<Rightarrow> state \<Rightarrow> (error + unit) \<times> state" where
  "init rt s =
     (if initialized s then (Inr (), s)
      else if \<not> has_window rt then (Inr (), s)
      else
        let cmd = init_logger_cmd (make_settings (LOGGER_SETTINGS rt));
            s1 = s\<lparr>invoked := invoked s @ [cmd]\<rparr>
        in case invoke rt cmd of
             None \<Rightarrow>
               (Inr (), print console_log [Text ''Logger initialized successfully'']
                          (s1\<lparr>initialized := True\<rparr>))
           | Some e \<Rightarrow>
               (Inr (), print console_error [Text ''Failed to initialize logger:'', Caught e] s1))"

definition fresh :: "bool \<Rightarrow> state" where
  \<comment> \<open>The field initialisers of lines 6 and 7, before any console call or command.\<close>
  "fresh dev =
     \<lparr>initialized = False, isDev = dev, console = [], invoked = [], stack_calls = 0\<rparr>"

definition new_LoggerService :: "runtime \<Rightarrow> string \<Rightarrow> state" where
  \<comment> \<open>The constructor; the argument is \<^verbatim>\<open>process.env.NODE_ENV\<close>. The promise of
      \<^verbatim>\<open>init\<close> is discarded (\<^verbatim>\<open>void\<close>).\<close>
  "new_LoggerService rt node_env = snd (init rt (fresh (node_env = ''development'')))"

subsection \<open>getCallerLocation\<close>

definition frame_location :: "(string \<Rightarrow> string option) \<Rightarrow> StackFrame \<Rightarrow> string" where
  \<comment> \<open>Lines 50 to 74: the string built from the caller's frame. A line number counts
      from 1; \<^verbatim>\<open>lineNumber || "?"\<close> is \<^verbatim>\<open>"?"\<close> for \<^verbatim>\<open>undefined\<close> and for 0.\<close>
  "frame_location pathname callerFrame =
     (let name = cleanFileName pathname (or_else (fileName callerFrame) ''unknown'');
          line = (case lineNumber callerFrame of
                    None \<Rightarrow> ''?''
                  | Some n \<Rightarrow> if n = 0 then ''?'' else digits n)
      in name @ '':'' @ line)"

definition resolve_stack :: "runtime \<Rightarrow> state \<Rightarrow> (error + string option) \<times> state" where
  \<comment> \<open>The body of the \<^verbatim>\<open>try\<close> of lines 44 to 76. \<open>Inl e\<close>: \<^verbatim>\<open>StackTrace.get\<close> threw \<open>e\<close>;
      \<open>Inr None\<close>: \<^verbatim>\<open>stackframes[3]\<close> is undefined and the block falls through;
      \<open>Inr (Some l)\<close>: the block returns \<open>l\<close>.\<close>
  "resolve_stack rt s =
     (let s1 = s\<lparr>stack_calls := Suc (stack_calls s)\<rparr>
      in case StackTrace_get rt of
           Inl e \<Rightarrow> (Inl e, s1)
         | Inr stackframes \<Rightarrow>
             if 3 < length stackframes
             then (Inr (Some (frame_location (URL_pathname rt) (stackframes ! 3))), s1)
             else (Inr None, s1))"

definition getCallerLocation ::
  "runtime \<Rightarrow> string option \<Rightarrow> state \<Rightarrow> (error + string) \<times> state" where
  "getCallerLocation rt from s =
     (if \<not> isDev s \<and> truthy from then (Inr (the from), s)
      else if isDev s then
        (case resolve_stack rt s of
           (Inr (Some location), s1) \<Rightarrow> (Inr location, s1)
         | (Inr None, s1) \<Rightarrow> (Inr (or_else from ''unknown''), s1)
         | (Inl e, s1) \<Rightarrow>
             (Inr (or_else from ''unknown''),
              print console_warn [Text ''Failed to resolve stack trace:'', Caught e] s1))
      else (Inr (or_else from ''unknown''), s))"

subsection \<open>log\<close>

text \<open>
  \<^verbatim>\<open>console_map\<close> is an object literal, so \<^verbatim>\<open>console_map[level]\<close> reads an own property
  first and a member of \<^verbatim>\<open>Object.prototype\<close> next. Every such member is truthy, so the
  \<^verbatim>\<open>|| console.log.bind(console)\<close> of line 97 applies only when both are missing.
\<close>

datatype property =
    Primitive channel     \<comment> \<open>a console primitive, bound to the console\<close>
  | Inherited string      \<comment> \<open>the member of \<^verbatim>\<open>Object.prototype\<close> of that name\<close>

definition console_map :: "string \<Rightarrow> channel option" where
  \<comment> \<open>The own properties of lines 88 to 95.\<close>
  "console_map =
     map_of [(''log'', console_log), (''info'', console_info), (''warn'', console_warn),
             (''error'', console_error), (''debug'', console_debug), (''trace'', console_trace)]"

definition Object_prototype :: "string list" where
  \<comment> \<open>The property names of \<^verbatim>\<open>Object.prototype\<close>.\<close>
  "Object_prototype =
     [''constructor'', ''hasOwnProperty'', ''isPrototypeOf'', ''propertyIsEnumerable'',
      ''toLocaleString'', ''toString'', ''valueOf'', ''__proto__'',
      ''__defineGetter__'', ''__defineSetter__'', ''__lookupGetter__'', ''__lookupSetter__'']"

definition get_property :: "string \<Rightarrow> property option" where
  \<comment> \<open>\<^verbatim>\<open>console_map[level]\<close>; \<open>None\<close> is \<^verbatim>\<open>undefined\<close>.\<close>
  "get_property level =
     (case console_map level of
        Some ch \<Rightarrow> Some (Primitive ch)
      | None \<Rightarrow> if level \<in> set Object_prototype then Some (Inherited level) else None)"

definition call :: "property \<Rightarrow> string \<Rightarrow> state \<Rightarrow> (error + unit) \<times> state" where
  \<comment> \<open>\<^verbatim>\<open>custom_console(line)\<close>, a plain call in strict code, so \<^verbatim>\<open>this\<close> is undefined.
      \<^verbatim>\<open>__proto__\<close> is an accessor whose value is an object, not a function. Of the
      inherited functions, \<^verbatim>\<open>constructor\<close>, \<^verbatim>\<open>isPrototypeOf\<close> and \<^verbatim>\<open>toString\<close> accept an
      undefined \<^verbatim>\<open>this\<close> and return a value that is discarded; the others start by
      converting \<^verbatim>\<open>this\<close> to an object, which throws.\<close>
  "call f line s =
     (case f of
        Primitive ch \<Rightarrow> (Inr (), print ch [Text line] s)
      | Inherited name \<Rightarrow>
          if name = ''__proto__''
          then (Inl (TypeError ''custom_console is not a function''), s)
          else if name \<in> set [''constructor'', ''isPrototypeOf'', ''toString'']
          then (Inr (), s)
          else (Inl (TypeError ''Cannot convert undefined or null to object''), s))"

definition custom_console :: "string \<Rightarrow> property" where
  \<comment> \<open>Lines 96 and 97.\<close>
  "custom_console level =
     (case get_property level of Some f \<Rightarrow> f | None \<Rightarrow> Primitive console_log)"

definition console_line :: "string \<Rightarrow> string \<Rightarrow> string option \<Rightarrow> string" where
  \<comment> \<open>Lines 98 and 99.\<close>
  "console_line level message from =
     (let prefix = (if truthy from then ''['' @ the from @ '']'' else [])
      in ''['' @ toUpperCase level @ ''] '' @ prefix @ '' '' @ message)"

definition log ::
  "runtime \<Rightarrow> string \<Rightarrow> string \<Rightarrow> string option \<Rightarrow> state \<Rightarrow> (error + unit) \<times> state" where
  "log rt level message from s =
     (case getCallerLocation rt from s of
        (Inl e, s1) \<Rightarrow> (Inl e, s1)
      | (Inr location, s1) \<Rightarrow>
          (case call (custom_console level) (console_line level message from) s1 of
             (Inl e, s2) \<Rightarrow> (Inl e, s2)
           | (Inr _, s2) \<Rightarrow>
               let cmd = log_frontend_message level message location;
                   s3 = s2\<lparr>invoked := invoked s2 @ [cmd]\<rparr>
               in case invoke rt cmd of
                    None \<Rightarrow> (Inr (), s3)
                  | Some e \<Rightarrow>
                      (Inr (),
                       print console_error [Text ''Failed to send log to backend:'', Caught e] s3)))"

definition info :: "runtime \<Rightarrow> string \<Rightarrow> string option \<Rightarrow> state \<Rightarrow> (error + unit) \<times> state" where
  "info rt message from s = log rt ''info'' message from s"

definition warn :: "runtime \<Rightarrow> string \<Rightarrow> string option \<Rightarrow> state \<Rightarrow> (error + unit) \<times> state" where
  "warn rt message from s = log rt ''warn'' message from s"

definition error :: "runtime \<Rightarrow> string \<Rightarrow> string option \<Rightarrow> state \<Rightarrow> (error + unit) \<times> state" where
  "error rt message from s = log rt ''error'' message from s"

definition debug :: "runtime \<Rightarrow> string \<Rightarrow> string option \<Rightarrow> state \<Rightarrow> (error + unit) \<times> state" where
  "debug rt message from s = log rt ''debug'' message from s"

definition trace :: "runtime \<Rightarrow> string \<Rightarrow> string option \<Rightarrow> state \<Rightarrow> (error + unit) \<times> state" where
  "trace rt message from s = log rt ''trace'' message from s"

subsection \<open>Sample inputs\<close>

definition sample_settings :: LogSettings where
  "sample_settings =
     \<lparr>logPath = Some ''logs/app.log'', logType = ''file'', maxFileSize = 1048576,
      consoleLevel = ''debug'', fileLevel = ''info''\<rparr>"

definition pathless_settings :: LogSettings where
  \<comment> \<open>Settings whose log path is the empty string.\<close>
  "pathless_settings = sample_settings\<lparr>logPath := Some []\<rparr>"

definition sample_frames :: "StackFrame list" where
  \<comment> \<open>The frames of \<^verbatim>\<open>getCallerLocation\<close>, \<^verbatim>\<open>log\<close>, \<^verbatim>\<open>info\<close> and of the caller of \<^verbatim>\<open>info\<close>.\<close>
  "sample_frames =
     [\<lparr>fileName = Some ''webpack-internal:///./lib/services/LoggerService.ts'', lineNumber = Some 45\<rparr>,
      \<lparr>fileName = Some ''webpack-internal:///./lib/services/LoggerService.ts'', lineNumber = Some 85\<rparr>,
      \<lparr>fileName = Some ''webpack-internal:///./lib/services/LoggerService.ts'', lineNumber = Some 113\<rparr>,
      \<lparr>fileName = Some ''webpack-internal:///./components/Button.tsx'', lineNumber = Some 42\<rparr>]"

definition lineless_frames :: "StackFrame list" where
  \<comment> \<open>The same stack with a caller frame that has no line number.\<close>
  "lineless_frames =
     sample_frames[3 := \<lparr>fileName = Some ''/srv/build/app/page.tsx'', lineNumber = None\<rparr>]"

definition reachable :: runtime where
  \<comment> \<open>A browser window whose backend accepts every command and whose stack is readable.\<close>
  "reachable =
     \<lparr>has_window = True, LOGGER_SETTINGS = sample_settings, invoke = (\<lambda>cmd. None),
      StackTrace_get = Inr sample_frames, URL_pathname = url_pathname\<rparr>"

definition unreachable :: runtime where
  \<comment> \<open>A browser window whose backend rejects every command and whose stack cannot be read.\<close>
  "unreachable =
     \<lparr>has_window = True, LOGGER_SETTINGS = sample_settings,
      invoke = (\<lambda>cmd. Some (Failure ''channel closed'')),
      StackTrace_get = Inl (Failure ''no stack''), URL_pathname = url_pathname\<rparr>"

section \<open>Properties\<close>

subsection \<open>Auxiliary facts\<close>

lemmas clean_defs = cleanFileName_def replace_prefix_def startsWith_def match_group_def
  is_separator_def is_line_terminator_def known_directories_def

lemma or_else_simps:
  "or_else None d = d" "or_else (Some []) d = d" "x \<noteq> [] \<Longrightarrow> or_else (Some x) d = x"
  by (simp_all add: or_else_def)

text \<open>The four ways through \<^verbatim>\<open>getCallerLocation\<close>.\<close>

lemma getCallerLocation_production:
  "\<not> isDev s \<Longrightarrow> getCallerLocation rt from s = (Inr (or_else from ''unknown''), s)"
  by (cases "from") (simp_all add: getCallerLocation_def truthy_def or_else_def)

lemma getCallerLocation_throws:
  "isDev s \<Longrightarrow> StackTrace_get rt = Inl e \<Longrightarrow>
   getCallerLocation rt from s =
     (Inr (or_else from ''unknown''),
      print console_warn [Text ''Failed to resolve stack trace:'', Caught e]
        (s\<lparr>stack_calls := Suc (stack_calls s)\<rparr>))"
  by (simp add: getCallerLocation_def resolve_stack_def)

lemma getCallerLocation_short:
  "isDev s \<Longrightarrow> StackTrace_get rt = Inr frames \<Longrightarrow> length frames \<le> 3 \<Longrightarrow>
   getCallerLocation rt from s =
     (Inr (or_else from ''unknown''), s\<lparr>stack_calls := Suc (stack_calls s)\<rparr>)"
  by (simp add: getCallerLocation_def resolve_stack_def)

lemma getCallerLocation_frame:
  "isDev s \<Longrightarrow> StackTrace_get rt = Inr frames \<Longrightarrow> 3 < length frames \<Longrightarrow>
   getCallerLocation rt from s =
     (Inr (frame_location (URL_pathname rt) (frames ! 3)),
      s\<lparr>stack_calls := Suc (stack_calls s)\<rparr>)"
  by (simp add: getCallerLocation_def resolve_stack_def)

lemma getCallerLocation_returns:
  "\<exists>location s1. getCallerLocation rt from s = (Inr location, s1) \<and>
     initialized s1 = initialized s \<and> isDev s1 = isDev s \<and> invoked s1 = invoked s"
  by (simp add: getCallerLocation_def resolve_stack_def print_def Let_def split: sum.splits)

lemma getCallerLocation_empty_label:
  "getCallerLocation rt (Some []) s = getCallerLocation rt None s"
  by (simp add: getCallerLocation_def truthy_def or_else_def
        split: prod.splits sum.splits option.splits)

text \<open>The console line and the channel of a level.\<close>

lemma console_line_label:
  "label \<noteq> [] \<Longrightarrow>
   console_line level message (Some label) =
     ''['' @ toUpperCase level @ ''] ['' @ label @ ''] '' @ message"
  by (simp add: console_line_def truthy_def)

lemma console_line_no_label:
  "console_line level message None = ''['' @ toUpperCase level @ '']  '' @ message"
  by (simp add: console_line_def truthy_def)

lemma console_line_empty_label:
  "console_line level message (Some []) = console_line level message None"
  by (simp add: console_line_def truthy_def)

lemma custom_console_public:
  "custom_console ''trace'' = Primitive console_trace"
  "custom_console ''debug'' = Primitive console_debug"
  "custom_console ''info'' = Primitive console_info"
  "custom_console ''warn'' = Primitive console_warn"
  "custom_console ''error'' = Primitive console_error"
  by (simp_all add: custom_console_def get_property_def console_map_def)

lemma custom_console_default:
  "level \<notin> set [''log'', ''info'', ''warn'', ''error'', ''debug'', ''trace''] \<Longrightarrow>
   level \<notin> set Object_prototype \<Longrightarrow> custom_console level = Primitive console_log"
  by (simp add: custom_console_def get_property_def console_map_def)

lemma custom_console_primitive:
  "level \<notin> set Object_prototype \<Longrightarrow> \<exists>ch. custom_console level = Primitive ch"
  by (simp add: custom_console_def get_property_def split: option.splits)

text \<open>
  A level whose handler is a console primitive: the line is printed on that channel, the
  record is submitted once, a rejection is reported on the console and the call returns.
\<close>

lemma log_primitive:
  "custom_console level = Primitive ch \<Longrightarrow> getCallerLocation rt from s = (Inr location, s1) \<Longrightarrow>
   log rt level message from s =
     (Inr (),
      let s3 = (print ch [Text (console_line level message from)] s1)
                 \<lparr>invoked := invoked s1 @ [log_frontend_message level message location]\<rparr>
      in case invoke rt (log_frontend_message level message location) of
           None \<Rightarrow> s3
         | Some e \<Rightarrow> print console_error [Text ''Failed to send log to backend:'', Caught e] s3)"
  by (simp add: log_def call_def print_def Let_def split: option.splits)

lemma log_completes:
  "level \<notin> set Object_prototype \<Longrightarrow> fst (log rt level message from s) = Inr ()"
proof -
  assume "level \<notin> set Object_prototype"
  then obtain ch where "custom_console level = Primitive ch"
    using custom_console_primitive by blast
  moreover obtain location s1 where "getCallerLocation rt from s = (Inr location, s1)"
    using getCallerLocation_returns [of rt "from" s] by blast
  ultimately show ?thesis
    by (simp add: log_primitive)
qed

lemma public_methods_complete:
  "fst (info rt message from s) = Inr ()"
  "fst (warn rt message from s) = Inr ()"
  "fst (error rt message from s) = Inr ()"
  "fst (debug rt message from s) = Inr ()"
  "fst (trace rt message from s) = Inr ()"
  by (simp_all add: info_def warn_def error_def debug_def trace_def log_completes
        Object_prototype_def)

lemma log_keeps_flag: "initialized (snd (log rt level message from s)) = initialized s"
proof -
  obtain location s1 where "getCallerLocation rt from s = (Inr location, s1)"
    and "initialized s1 = initialized s"
    using getCallerLocation_returns [of rt "from" s] by blast
  then show ?thesis
    by (simp add: log_def call_def print_def Let_def
          split: option.splits property.splits prod.splits sum.splits)
qed

text \<open>
  The scenario \<^verbatim>\<open>info("Saved", "profile-form")\<close> in production, with the backend
  reachable and with the backend unreachable.
\<close>

lemma info_saved_reachable:
  "info reachable ''Saved'' (Some ''profile-form'') (fresh False) =
     (Inr (), (fresh False)
        \<lparr>console := [(console_info, [Text ''[INFO] [profile-form] Saved''])],
         invoked := [log_frontend_message ''info'' ''Saved'' ''profile-form'']\<rparr>)"
  by (simp add: info_def log_def getCallerLocation_def truthy_def fresh_def custom_console_def
        get_property_def console_map_def call_def print_def console_line_def toUpperCase_def
        reachable_def)

lemma info_saved_unreachable:
  "info unreachable ''Saved'' (Some ''profile-form'') (fresh False) =
     (Inr (), (fresh False)
        \<lparr>console := [(console_info, [Text ''[INFO] [profile-form] Saved'']),
                     (console_error, [Text ''Failed to send log to backend:'',
                                      Caught (Failure ''channel closed'')])],
         invoked := [log_frontend_message ''info'' ''Saved'' ''profile-form'']\<rparr>)"
  by (simp add: info_def log_def getCallerLocation_def truthy_def fresh_def custom_console_def
        get_property_def console_map_def call_def print_def console_line_def toUpperCase_def
        unreachable_def)

text \<open>The four ways through \<^verbatim>\<open>init\<close>.\<close>

lemma init_initialized: "initialized s \<Longrightarrow> init rt s = (Inr (), s)"
  by (simp add: init_def)

lemma init_no_window: "\<not> has_window rt \<Longrightarrow> init rt s = (Inr (), s)"
  by (simp add: init_def)

lemma init_accepted:
  "\<not> initialized s \<Longrightarrow> has_window rt \<Longrightarrow>
   invoke rt (init_logger_cmd (make_settings (LOGGER_SETTINGS rt))) = None \<Longrightarrow>
   init rt s =
     (Inr (), print console_log [Text ''Logger initialized successfully'']
                (s\<lparr>invoked := invoked s @ [init_logger_cmd (make_settings (LOGGER_SETTINGS rt))],
                   initialized := True\<rparr>))"
  by (simp add: init_def)

lemma init_rejected:
  "\<not> initialized s \<Longrightarrow> has_window rt \<Longrightarrow>
   invoke rt (init_logger_cmd (make_settings (LOGGER_SETTINGS rt))) = Some e \<Longrightarrow>
   init rt s =
     (Inr (), print console_error [Text ''Failed to initialize logger:'', Caught e]
                (s\<lparr>invoked := invoked s @ [init_logger_cmd (make_settings (LOGGER_SETTINGS rt))]\<rparr>))"
  by (simp add: init_def)

lemma init_returns: "fst (init rt s) = Inr ()"
  by (simp add: init_def Let_def split: option.splits)

subsection \<open>Path normalization\<close>

text \<open>
  Claim C1 says that the frame file reference
  \<^verbatim>\<open>file:///home/user/project/src/hooks/useAuth.ts\<close> is normalized to
  \<^verbatim>\<open>src/hooks/useAuth.ts\<close>. The code does not do that: after the prefix \<^verbatim>\<open>file://\<close> is
  stripped, the greedy \<^verbatim>\<open>.*\<close> of the pattern runs to the last separator that is followed
  by a known directory, which is the one in front of \<^verbatim>\<open>hooks/\<close>, so the result is
  \<^verbatim>\<open>hooks/useAuth.ts\<close>, whatever the URL parser does.
\<close>

theorem file_reference_keeps_innermost_directory:
  "cleanFileName pathname ''file:///home/user/project/src/hooks/useAuth.ts'' = ''hooks/useAuth.ts''"
  by (simp add: clean_defs)

text \<open>
  Claim C6: the rewrite sequence maps \<^verbatim>\<open>webpack-internal:///./components/Button.tsx\<close> to
  \<^verbatim>\<open>components/Button.tsx\<close>, maps \<^verbatim>\<open>https://app.example/_next/static/chunks/app/page.js\<close>
  to \<^verbatim>\<open>app/page.js\<close>, and leaves \<^verbatim>\<open>https://cdn.example/vendor/react.js\<close> as the path
  \<^verbatim>\<open>/vendor/react.js\<close> of the URL, where no known directory matches.
\<close>

theorem normalization_table:
  "cleanFileName pathname ''webpack-internal:///./components/Button.tsx'' =
     ''components/Button.tsx'' \<and>
   cleanFileName url_pathname ''https://app.example/_next/static/chunks/app/page.js'' =
     ''app/page.js'' \<and>
   cleanFileName url_pathname ''https://cdn.example/vendor/react.js'' = ''/vendor/react.js''"
  by (simp add: clean_defs url_pathname_def)

subsection \<open>The resolver\<close>

text \<open>
  Claim C2: for every non-empty explicit label, in production mode, the resolver returns
  that label verbatim and does not call the stack-trace provider: the state, and with it
  the count of provider calls, is the one before the call.
\<close>

theorem production_label_verbatim:
  "\<not> isDev s \<Longrightarrow> label \<noteq> [] \<Longrightarrow>
   getCallerLocation rt (Some label) s = (Inr label, s) \<and>
   stack_calls (snd (getCallerLocation rt (Some label) s)) = stack_calls s"
  by (simp add: getCallerLocation_production or_else_simps)

theorem production_label_verbatim_witness:
  "\<not> isDev (fresh False) \<and> ''foo.ts:12'' \<noteq> [] \<and>
   getCallerLocation unreachable (Some ''foo.ts:12'') (fresh False) =
     (Inr ''foo.ts:12'', fresh False)"
  using production_label_verbatim [of "fresh False" "''foo.ts:12''" unreachable]
  by (simp add: fresh_def)

text \<open>
  Claim C3, amended: the resolver never raises, whatever the runtime does; and whenever
  \<^verbatim>\<open>StackTrace.get\<close> throws or returns fewer than four frames, so that there is no frame
  at index 3, the result is the explicit label if a non-empty one was supplied, and the
  string \<^verbatim>\<open>unknown\<close> if no label or the empty string was supplied.
\<close>

theorem fallback_on_failed_introspection:
  "(\<exists>location. fst (getCallerLocation rt from s) = Inr location) \<and>
   ((\<exists>e. StackTrace_get rt = Inl e) \<or>
    (\<exists>frames. StackTrace_get rt = Inr frames \<and> length frames \<le> 3) \<longrightarrow>
      (\<forall>label. from = Some label \<and> label \<noteq> [] \<longrightarrow>
         fst (getCallerLocation rt from s) = Inr label) \<and>
      (from = None \<or> from = Some [] \<longrightarrow>
         fst (getCallerLocation rt from s) = Inr ''unknown''))"
proof (intro conjI impI)
  show "\<exists>location. fst (getCallerLocation rt from s) = Inr location"
    using getCallerLocation_returns [of rt "from" s] by auto
next
  assume fails: "(\<exists>e. StackTrace_get rt = Inl e) \<or>
    (\<exists>frames. StackTrace_get rt = Inr frames \<and> length frames \<le> 3)"
  have fallback: "fst (getCallerLocation rt from s) = Inr (or_else from ''unknown'')"
  proof (cases "isDev s")
    case False
    then show ?thesis by (simp add: getCallerLocation_production)
  next
    case True
    with fails show ?thesis
      by (auto simp: getCallerLocation_throws getCallerLocation_short)
  qed
  show "\<forall>label. from = Some label \<and> label \<noteq> [] \<longrightarrow>
          fst (getCallerLocation rt from s) = Inr label"
    using fallback by (auto simp: or_else_simps)
  show "fst (getCallerLocation rt from s) = Inr ''unknown''" if "from = None \<or> from = Some []"
    using fallback that by (auto simp: or_else_simps)
qed

theorem fallback_on_failed_introspection_witness:
  "StackTrace_get unreachable = Inl (Failure ''no stack'') \<and>
   fst (getCallerLocation unreachable None (fresh True)) = Inr ''unknown'' \<and>
   fst (getCallerLocation unreachable (Some ''foo.ts:12'') (fresh True)) = Inr ''foo.ts:12''"
  using fallback_on_failed_introspection [of unreachable None "fresh True"]
    fallback_on_failed_introspection [of unreachable "Some ''foo.ts:12''" "fresh True"]
  by (simp add: unreachable_def)

text \<open>
  Claim C3 as stated, with the supplied label returned whenever introspection fails, does
  not hold for the empty string: \<^verbatim>\<open>"" || "unknown"\<close> is \<^verbatim>\<open>"unknown"\<close>. Here the provider
  throws in development mode and the label supplied is \<^verbatim>\<open>""\<close>.
\<close>

theorem supplied_empty_label_is_not_returned:
  "isDev (fresh True) \<and>
   StackTrace_get unreachable = Inl (Failure ''no stack'') \<and>
   fst (getCallerLocation unreachable (Some []) (fresh True)) = Inr ''unknown'' \<and>
   fst (getCallerLocation unreachable (Some []) (fresh True)) \<noteq> Inr []"
  by (simp add: getCallerLocation_def resolve_stack_def truthy_def or_else_def fresh_def
        unreachable_def)

text \<open>
  Claim C7: in development mode the resolver calls the stack-trace provider on every
  call, with or without a label; and when the provider returns a frame at index 3 the
  result is the cleaned file name of that frame, a colon and its line number, with
  \<^verbatim>\<open>?\<close> where the frame has no line number. The label does not occur in the result.
\<close>

theorem development_derives_location:
  "isDev s \<Longrightarrow>
   stack_calls (snd (getCallerLocation rt from s)) = Suc (stack_calls s) \<and>
   (StackTrace_get rt = Inr frames \<and> 3 < length frames \<longrightarrow>
      fst (getCallerLocation rt from s) =
        Inr (cleanFileName (URL_pathname rt)
               (case fileName (frames ! 3) of
                  None \<Rightarrow> ''unknown''
                | Some f \<Rightarrow> if f = [] then ''unknown'' else f)
             @ '':'' @
             (case lineNumber (frames ! 3) of
                None \<Rightarrow> ''?''
              | Some n \<Rightarrow> if n = 0 then ''?'' else digits n)))"
proof (intro conjI impI)
  assume dev: "isDev s"
  show "stack_calls (snd (getCallerLocation rt from s)) = Suc (stack_calls s)"
  proof (cases "StackTrace_get rt")
    case (Inl e)
    with dev show ?thesis by (simp add: getCallerLocation_throws print_def)
  next
    case (Inr stackframes)
    with dev show ?thesis
      by (cases "3 < length stackframes")
         (simp_all add: getCallerLocation_frame getCallerLocation_short)
  qed
  assume "StackTrace_get rt = Inr frames \<and> 3 < length frames"
  with dev have "fst (getCallerLocation rt from s) =
      Inr (frame_location (URL_pathname rt) (frames ! 3))"
    by (simp add: getCallerLocation_frame)
  then show "fst (getCallerLocation rt from s) =
        Inr (cleanFileName (URL_pathname rt)
               (case fileName (frames ! 3) of
                  None \<Rightarrow> ''unknown''
                | Some f \<Rightarrow> if f = [] then ''unknown'' else f)
             @ '':'' @
             (case lineNumber (frames ! 3) of
                None \<Rightarrow> ''?''
              | Some n \<Rightarrow> if n = 0 then ''?'' else digits n))"
    by (simp add: frame_location_def or_else_def Let_def del: digits.simps)
qed

theorem development_derives_location_witness:
  "isDev (fresh True) \<and>
   StackTrace_get reachable = Inr sample_frames \<and> 3 < length sample_frames \<and>
   stack_calls (snd (getCallerLocation reachable (Some ''profile-form'') (fresh True))) = 1 \<and>
   fst (getCallerLocation reachable (Some ''profile-form'') (fresh True)) =
     Inr ''components/Button.tsx:42'' \<and>
   fst (getCallerLocation (reachable\<lparr>StackTrace_get := Inr lineless_frames\<rparr>)
          (Some ''profile-form'') (fresh True)) = Inr ''app/page.tsx:?''"
  using development_derives_location
          [of "fresh True" reachable "Some ''profile-form''" sample_frames]
    development_derives_location
          [of "fresh True" "reachable\<lparr>StackTrace_get := Inr lineless_frames\<rparr>"
              "Some ''profile-form''" lineless_frames]
  by (simp add: fresh_def reachable_def sample_frames_def lineless_frames_def clean_defs)

text \<open>
  Claim C10: the empty string as a label is treated like an absent label. The resolver
  and \<^verbatim>\<open>log\<close> behave on it exactly as they do without a label; in production mode the
  resolver does not return it but falls back to \<^verbatim>\<open>unknown\<close>, as it does in development
  mode when no frame can be read; and the console line carries no bracket for it.
\<close>

theorem empty_label_is_absent:
  "getCallerLocation rt (Some []) s = getCallerLocation rt None s \<and>
   log rt level message (Some []) s = log rt level message None s \<and>
   (\<not> isDev s \<longrightarrow> getCallerLocation rt (Some []) s = (Inr ''unknown'', s)) \<and>
   ((\<exists>e. StackTrace_get rt = Inl e) \<or>
    (\<exists>frames. StackTrace_get rt = Inr frames \<and> length frames \<le> 3) \<longrightarrow>
      fst (getCallerLocation rt (Some []) s) = Inr ''unknown'') \<and>
   console_line level message (Some []) = ''['' @ toUpperCase level @ '']  '' @ message"
proof (intro conjI impI)
  show "getCallerLocation rt (Some []) s = getCallerLocation rt None s"
    by (rule getCallerLocation_empty_label)
  show "log rt level message (Some []) s = log rt level message None s"
    unfolding log_def getCallerLocation_empty_label console_line_empty_label by (rule refl)
  show "getCallerLocation rt (Some []) s = (Inr ''unknown'', s)" if "\<not> isDev s"
    using that by (simp add: getCallerLocation_production or_else_simps)
  show "console_line level message (Some []) = ''['' @ toUpperCase level @ '']  '' @ message"
    by (simp add: console_line_def truthy_def)
next
  assume "(\<exists>e. StackTrace_get rt = Inl e) \<or>
    (\<exists>frames. StackTrace_get rt = Inr frames \<and> length frames \<le> 3)"
  then show "fst (getCallerLocation rt (Some []) s) = Inr ''unknown''"
    by (cases "isDev s")
       (auto simp: getCallerLocation_production getCallerLocation_throws
          getCallerLocation_short or_else_simps)
qed

theorem empty_label_is_absent_witness:
  "\<not> isDev (fresh False) \<and>
   getCallerLocation reachable (Some []) (fresh False) = (Inr ''unknown'', fresh False) \<and>
   fst (getCallerLocation unreachable (Some []) (fresh True)) = Inr ''unknown'' \<and>
   console_line ''info'' ''Saved'' (Some []) = ''[INFO]  Saved''"
proof -
  have production: "\<not> isDev (fresh False)"
    by (simp add: fresh_def)
  have thrown: "\<exists>e. StackTrace_get unreachable = Inl e"
    by (simp add: unreachable_def)
  have upper: "toUpperCase ''info'' = ''INFO''"
    by (simp add: toUpperCase_def)
  from production empty_label_is_absent [of reachable "fresh False" "''info''" "''Saved''"]
  have 1: "getCallerLocation reachable (Some []) (fresh False) = (Inr ''unknown'', fresh False)"
    by blast
  from thrown empty_label_is_absent [of unreachable "fresh True" "''info''" "''Saved''"]
  have 2: "fst (getCallerLocation unreachable (Some []) (fresh True)) = Inr ''unknown''"
    by blast
  from upper empty_label_is_absent [of reachable "fresh False" "''info''" "''Saved''"]
  have 3: "console_line ''info'' ''Saved'' (Some []) = ''[INFO]  Saved''"
    by simp
  from production 1 2 3 show ?thesis by blast
qed

subsection \<open>The dispatcher\<close>

text \<open>
  Claim C4 says that \<^verbatim>\<open>log\<close> completes without raising for every level, message and
  label. The code raises for the level \<^verbatim>\<open>__proto__\<close>: \<^verbatim>\<open>console_map["__proto__"]\<close> is the
  prototype object of the literal, which is truthy and is not a function, so the call of
  line 99 throws a \<^verbatim>\<open>TypeError\<close> outside every \<^verbatim>\<open>try\<close>; nothing is submitted to the
  backend. The five public methods pass other levels and do complete.
\<close>

theorem log_raises_on_proto_level:
  "fst (log rt ''__proto__'' message from s) =
     Inl (TypeError ''custom_console is not a function'') \<and>
   invoked (snd (log rt ''__proto__'' message from s)) = invoked s"
proof -
  obtain location s1 where "getCallerLocation rt from s = (Inr location, s1)"
    and "invoked s1 = invoked s"
    using getCallerLocation_returns [of rt "from" s] by blast
  then show ?thesis
    by (simp add: log_def custom_console_def get_property_def console_map_def
          Object_prototype_def call_def)
qed

text \<open>
  Claim C8 says that each of the five levels goes to the console primitive of its name,
  that every other level goes to the default channel without throwing, and that the line
  is the upper-cased level in brackets, the label in brackets when there is one, and the
  message. The first and the last part hold. The second fails for the names that the
  object literal inherits: with the level \<^verbatim>\<open>toString\<close> the call returns and nothing is
  written to the console, on no channel, and with the level \<^verbatim>\<open>hasOwnProperty\<close> the
  call throws.
\<close>

theorem inherited_level_misses_default_channel:
  "log reachable ''toString'' ''Saved'' (Some ''profile-form'') (fresh False) =
     (Inr (), (fresh False)
        \<lparr>invoked := [log_frontend_message ''toString'' ''Saved'' ''profile-form'']\<rparr>) \<and>
   fst (log reachable ''hasOwnProperty'' ''Saved'' (Some ''profile-form'') (fresh False)) =
     Inl (TypeError ''Cannot convert undefined or null to object'')"
  by (simp add: log_def getCallerLocation_def truthy_def fresh_def custom_console_def
        get_property_def console_map_def Object_prototype_def call_def reachable_def)

subsection \<open>The initializer\<close>

text \<open>
  Claim C5: \<^verbatim>\<open>init\<close> never raises. The flag goes from false to true only when there is a
  window and the backend accepts the configuration command, submitted once by that call,
  and then it does; when the backend rejects the command the flag stays false. Once the
  flag is true, \<^verbatim>\<open>init\<close> is a no-op: it returns the state unchanged, so there is no
  second command and no second confirmation. No method resets the flag.
\<close>

theorem initialized_flag_lifecycle:
  "fst (init rt s) = Inr () \<and>
   (initialized s \<longrightarrow> init rt s = (Inr (), s)) \<and>
   (\<not> initialized s \<and> initialized (snd (init rt s)) \<longrightarrow>
      has_window rt \<and>
      invoke rt (init_logger_cmd (make_settings (LOGGER_SETTINGS rt))) = None \<and>
      invoked (snd (init rt s)) =
        invoked s @ [init_logger_cmd (make_settings (LOGGER_SETTINGS rt))]) \<and>
   (\<not> initialized s \<and> has_window rt \<and>
    invoke rt (init_logger_cmd (make_settings (LOGGER_SETTINGS rt))) = None \<longrightarrow>
      initialized (snd (init rt s))) \<and>
   (\<not> initialized s \<and>
    invoke rt (init_logger_cmd (make_settings (LOGGER_SETTINGS rt))) = Some e \<longrightarrow>
      \<not> initialized (snd (init rt s))) \<and>
   (initialized s \<longrightarrow>
      initialized (snd (init rt s)) \<and>
      initialized (snd (getCallerLocation rt from s)) \<and>
      initialized (snd (log rt level message from s)))"
proof (intro conjI impI)
  show "fst (init rt s) = Inr ()" by (rule init_returns)
  show "init rt s = (Inr (), s)" if "initialized s"
    using that by (rule init_initialized)
  show "initialized (snd (init rt s))" if "initialized s"
    using that by (simp add: init_initialized)
  show "initialized (snd (getCallerLocation rt from s))" if "initialized s"
    using that getCallerLocation_returns [of rt "from" s] by auto
  show "initialized (snd (log rt level message from s))" if "initialized s"
    using that by (simp add: log_keeps_flag)
  show "initialized (snd (init rt s))"
    if "\<not> initialized s \<and> has_window rt \<and>
        invoke rt (init_logger_cmd (make_settings (LOGGER_SETTINGS rt))) = None"
    using that by (simp add: init_accepted print_def)
  show "\<not> initialized (snd (init rt s))"
    if "\<not> initialized s \<and>
        invoke rt (init_logger_cmd (make_settings (LOGGER_SETTINGS rt))) = Some e"
    using that by (cases "has_window rt") (simp_all add: init_rejected init_no_window print_def)
next
  assume flip: "\<not> initialized s \<and> initialized (snd (init rt s))"
  then show window: "has_window rt"
    by (auto simp: init_no_window intro: ccontr)
  from flip have before: "\<not> initialized s" and after: "initialized (snd (init rt s))"
    by simp_all
  from before after window
  show accepted: "invoke rt (init_logger_cmd (make_settings (LOGGER_SETTINGS rt))) = None"
    by (cases "invoke rt (init_logger_cmd (make_settings (LOGGER_SETTINGS rt)))")
       (simp_all add: init_rejected print_def)
  from before window accepted
  show "invoked (snd (init rt s)) =
        invoked s @ [init_logger_cmd (make_settings (LOGGER_SETTINGS rt))]"
    by (simp add: init_accepted print_def)
qed

theorem initialized_flag_lifecycle_witness:
  "\<not> initialized (fresh False) \<and>
   initialized (new_LoggerService reachable ''production'') \<and>
   invoked (new_LoggerService reachable ''production'') =
     [init_logger_cmd (make_settings sample_settings)] \<and>
   init reachable (new_LoggerService reachable ''production'') =
     (Inr (), new_LoggerService reachable ''production'') \<and>
   \<not> initialized (new_LoggerService unreachable ''production'')"
  using initialized_flag_lifecycle [of reachable "fresh False"]
    initialized_flag_lifecycle [of reachable "new_LoggerService reachable ''production''"]
    initialized_flag_lifecycle [of unreachable "fresh False" "Failure ''channel closed''"]
  by (simp add: new_LoggerService_def fresh_def reachable_def unreachable_def)

text \<open>
  Claim C9, amended: the object submitted with \<^verbatim>\<open>init_logger_cmd\<close> holds the fields of
  \<^verbatim>\<open>LOGGER_SETTINGS\<close> under their snake-case names, each value unchanged, except that
  the log path is \<^verbatim>\<open>null\<close> when the configured path is absent or is the empty string.
\<close>

theorem settings_renamed:
  "\<not> initialized s \<Longrightarrow> has_window rt \<Longrightarrow>
   invoked (snd (init rt s)) =
     invoked s @
     [init_logger_cmd
        \<lparr>log_path = (if logPath (LOGGER_SETTINGS rt) = None \<or>
                         logPath (LOGGER_SETTINGS rt) = Some []
                      then None else logPath (LOGGER_SETTINGS rt)),
         log_type = logType (LOGGER_SETTINGS rt),
         max_file_size = maxFileSize (LOGGER_SETTINGS rt),
         console_level = consoleLevel (LOGGER_SETTINGS rt),
         file_level = fileLevel (LOGGER_SETTINGS rt)\<rparr>]"
  by (auto simp: init_def make_settings_def truthy_def print_def Let_def split: option.splits)

theorem settings_renamed_witness:
  "\<not> initialized (fresh True) \<and> has_window unreachable \<and>
   invoked (snd (init unreachable (fresh True))) =
     [init_logger_cmd \<lparr>log_path = Some ''logs/app.log'', log_type = ''file'',
                       max_file_size = 1048576, console_level = ''debug'',
                       file_level = ''info''\<rparr>]"
  using settings_renamed [of "fresh True" unreachable]
  by (simp add: fresh_def unreachable_def sample_settings_def)

text \<open>
  Claim C9 as stated, with every present value passed through unchanged, fails for a
  log path that is present and empty: \<^verbatim>\<open>"" || null\<close> is \<^verbatim>\<open>null\<close>.
\<close>

theorem empty_log_path_becomes_null:
  "logPath pathless_settings = Some [] \<and>
   log_path (make_settings pathless_settings) \<noteq> logPath pathless_settings \<and>
   invoked (snd (init (reachable\<lparr>LOGGER_SETTINGS := pathless_settings\<rparr>) (fresh False))) =
     [init_logger_cmd \<lparr>log_path = None, log_type = ''file'', max_file_size = 1048576,
                       console_level = ''debug'', file_level = ''info''\<rparr>]"
  by (simp add: pathless_settings_def sample_settings_def reachable_def fresh_def init_def
        make_settings_def truthy_def print_def)


end
